theory Spec2Isabelle
  imports Main
begin

section \<open>Data model (types.ts)\<close>

text \<open>
  The TypeScript type \<open>Stage = 'FQC' | 'Packaging' | null\<close> is \<open>Stage option\<close>,
  with \<open>None\<close> for \<open>null\<close>. Strings are lists of characters, each character standing
  for one code unit below 256. Time stamps (\<open>new Date().toISOString()\<close>, \<open>Date.now()\<close>)
  are the clock reading in milliseconds, a natural number handed to every function
  that reads the clock.
\<close>

datatype Stage = FQC | Packaging

datatype CheckStatus = Pass | Fail

datatype StageStatus = pending | completed | failed

record User =
  userId :: string
  password :: string
  isAdmin :: bool
  isActive :: bool
  assignedStage :: "Stage option"

text \<open>The fields \<open>id\<close> and \<open>image\<close> of a checkpoint are \<open>cp_id\<close> and \<open>cp_image\<close> here.\<close>

record CheckpointResult =
  cp_id :: string
  label :: string
  status :: "CheckStatus option"
  cp_image :: "string option"
  reason :: string

text \<open>
  A report's \<open>id\<close> is \<open>REP-\<close> followed by \<open>Date.now()\<close>; \<open>report_id\<close> holds that number.
\<close>

record QCReport =
  report_id :: nat
  timestamp :: nat
  stage :: "Stage option"
  report_userId :: string
  report_deviceId :: string
  report_checkpoints :: "CheckpointResult list"

record DeviceStatus =
  deviceId :: string
  fqcStatus :: StageStatus
  packagingStatus :: StageStatus
  lastUpdated :: nat

datatype AppStep =
  STAGE_SELECTION | LOGIN | DEVICE_ID_ENTRY | SCAN_DEVICE_ID | CHECKLIST | SUCCESS
  | ADMIN | DASHBOARD

section \<open>Constants (constants.tsx)\<close>

definition FQC_CHECKPOINTS :: "(string \<times> string) list" where
  "FQC_CHECKPOINTS =
     [(''scr_01'', ''Screen Surface Scratch Test''),
      (''bat_02'', ''Battery Contact Alignment''),
      (''btn_03'', ''Tactile Button Feedback''),
      (''chg_04'', ''Charging Port Inspection'')]"

definition PACKAGING_CHECKPOINTS :: "(string \<times> string) list" where
  "PACKAGING_CHECKPOINTS =
     [(''lbl_01'', ''Serial Label Matching''),
      (''box_02'', ''Box Integrity & Corner Strength''),
      (''acc_03'', ''Accessories (Cable/Manual) Inclusion''),
      (''sel_04'', ''Anti-Tamper Seal Application'')]"

definition INITIAL_ADMIN_USER :: User where
  "INITIAL_ADMIN_USER =
     \<lparr>userId = ''admin'', password = ''123'', isAdmin = True, isActive = True,
      assignedStage = Some FQC\<rparr>"

section \<open>The record store (storage.ts)\<close>

text \<open>
  \<open>localStorage\<close> holds three keys. The users key may be absent (\<open>None\<close>); an absent
  reports or device-status key reads as the empty list, so these two are lists. Every
  \<open>localStorage.setItem\<close> is also appended to \<open>writes\<close>, the history of the store,
  oldest write first.
\<close>

datatype Write =
  SetUsers "User list"
  | SetReports "QCReport list"
  | SetDeviceStatus "DeviceStatus list"

record Store =
  USERS_KEY :: "User list option"
  REPORTS_KEY :: "QCReport list"
  DEVICE_STATUS_KEY :: "DeviceStatus list"
  writes :: "Write list"

definition emptyStore :: Store where
  "emptyStore = \<lparr>USERS_KEY = None, REPORTS_KEY = [], DEVICE_STATUS_KEY = [], writes = []\<rparr>"

definition saveUsers :: "User list \<Rightarrow> Store \<Rightarrow> Store" where
  "saveUsers us st = st\<lparr>USERS_KEY := Some us, writes := writes st @ [SetUsers us]\<rparr>"

definition getStoredUsers :: "Store \<Rightarrow> User list \<times> Store" where
  "getStoredUsers st =
     (case USERS_KEY st of
        None \<Rightarrow> ([INITIAL_ADMIN_USER], saveUsers [INITIAL_ADMIN_USER] st)
      | Some us \<Rightarrow> (us, st))"

definition getStoredReports :: "Store \<Rightarrow> QCReport list" where
  "getStoredReports st = REPORTS_KEY st"

definition getDeviceStatuses :: "Store \<Rightarrow> DeviceStatus list" where
  "getDeviceStatuses st = DEVICE_STATUS_KEY st"

text \<open>\<open>Array.prototype.find\<close>: the first element that satisfies the predicate, or none.\<close>

fun find_first :: "('a \<Rightarrow> bool) \<Rightarrow> 'a list \<Rightarrow> 'a option" where
  "find_first p [] = None"
| "find_first p (x # xs) = (if p x then Some x else find_first p xs)"

text \<open>\<open>Array.prototype.findIndex\<close>: the index of that element; \<open>None\<close> stands for \<open>-1\<close>.\<close>

fun findIndex :: "('a \<Rightarrow> bool) \<Rightarrow> 'a list \<Rightarrow> nat option" where
  "findIndex p [] = None"
| "findIndex p (x # xs) =
     (if p x then Some 0 else map_option Suc (findIndex p xs))"

definition getDeviceStatus :: "string \<Rightarrow> Store \<Rightarrow> DeviceStatus option" where
  "getDeviceStatus d st = find_first (\<lambda>s. deviceId s = d) (getDeviceStatuses st)"

text \<open>
  The assignment to the stage's field in \<open>updateDeviceStatus\<close>; for a stage that is
  neither \<open>'FQC'\<close> nor \<open>'Packaging'\<close> no field is assigned.
\<close>

definition setStageField :: "Stage option \<Rightarrow> StageStatus \<Rightarrow> DeviceStatus \<Rightarrow> DeviceStatus" where
  "setStageField stg v r =
     (case stg of
        Some FQC \<Rightarrow> r\<lparr>fqcStatus := v\<rparr>
      | Some Packaging \<Rightarrow> r\<lparr>packagingStatus := v\<rparr>
      | None \<Rightarrow> r)"

definition updateDeviceStatus ::
  "nat \<Rightarrow> string \<Rightarrow> Stage option \<Rightarrow> StageStatus \<Rightarrow> Store \<Rightarrow> Store" where
  "updateDeviceStatus now d stg v st =
     (let allStatuses = getDeviceStatuses st;
          newStatus = \<lparr>deviceId = d, fqcStatus = pending, packagingStatus = pending,
                       lastUpdated = now\<rparr>;
          allStatuses' =
            (case findIndex (\<lambda>s. deviceId s = d) allStatuses of
               Some existingIndex \<Rightarrow>
                 allStatuses[existingIndex :=
                   (setStageField stg v (allStatuses ! existingIndex))\<lparr>lastUpdated := now\<rparr>]
             | None \<Rightarrow> allStatuses @ [setStageField stg v newStatus])
      in st\<lparr>DEVICE_STATUS_KEY := allStatuses',
             writes := writes st @ [SetDeviceStatus allStatuses']\<rparr>)"

text \<open>
  \<open>saveReport\<close> appends the report, writes the collection, and then marks the report's
  stage \<open>'completed'\<close> for the device. \<open>now\<close> is the clock at that call.
\<close>

definition saveReport :: "nat \<Rightarrow> QCReport \<Rightarrow> Store \<Rightarrow> Store" where
  "saveReport now report st =
     (let reports = getStoredReports st @ [report];
          st1 = st\<lparr>REPORTS_KEY := reports, writes := writes st @ [SetReports reports]\<rparr>
      in updateDeviceStatus now (report_deviceId report) (stage report) completed st1)"

section \<open>The workflow (App.tsx)\<close>

text \<open>
  The messages of \<open>setError\<close> and \<open>alert\<close>, named after the error they report:
  \<^item> \<open>InvalidCredentials\<close>: Invalid User ID or Password.
  \<^item> \<open>AccountDisabled\<close>: Account is disabled. Please contact Admin.
  \<^item> \<open>StageNotSelected\<close>: Please select a stage from the home screen first.
  \<^item> \<open>StageMismatch s\<close>: Access denied. You are assigned to \<open>s\<close>.
  \<^item> \<open>MissingDeviceId\<close>: Device ID is required
  \<^item> \<open>StagePrerequisiteNotMet\<close>: Cannot proceed to Packaging. Device must complete FQC
    stage first.
  \<^item> \<open>CameraAccessDenied\<close>: Camera access denied. ...
  \<^item> \<open>IncompleteChecklist\<close>: Please complete all checkpoints, images, and reasons.
  The empty message \<open>''\<close> is \<open>None\<close>.
\<close>

datatype Message =
  InvalidCredentials | AccountDisabled | StageNotSelected | StageMismatch "Stage option"
  | MissingDeviceId | StagePrerequisiteNotMet | CameraAccessDenied | IncompleteChecklist

text \<open>
  The state of the \<open>App\<close> component: its \<open>useState\<close> cells, the \<open>localStorage\<close> it
  works on, and the alerts it has shown (oldest first). The state variable \<open>deviceId\<close>
  is \<open>app_deviceId\<close>, \<open>error\<close> is \<open>app_error\<close>.
\<close>

record App =
  currentStep :: AppStep
  selectedStage :: "Stage option"
  currentUser :: "User option"
  app_deviceId :: string
  deviceImage :: "string option"
  checkpoints :: "CheckpointResult list"
  editingId :: "string option"
  isSubmitting :: bool
  app_error :: "Message option"
  scanning :: bool
  localStorage :: Store
  alerts :: "Message list"

definition initialApp :: "Store \<Rightarrow> App" where
  "initialApp st =
     \<lparr>currentStep = STAGE_SELECTION, selectedStage = None, currentUser = None,
      app_deviceId = [], deviceImage = None, checkpoints = [], editingId = None,
      isSubmitting = False, app_error = None, scanning = False, localStorage = st,
      alerts = []\<rparr>"

subsection \<open>Strings\<close>

text \<open>
  The white space that \<open>String.prototype.trim\<close> removes, among the code units below
  256: tab, line feed, vertical tab, form feed, carriage return, space, no-break space.
\<close>

definition isWhiteSpace :: "char \<Rightarrow> bool" where
  "isWhiteSpace c = (of_char c \<in> {9, 10, 11, 12, 13, 32, 160 :: nat})"

definition trim :: "string \<Rightarrow> string" where
  "trim s = rev (dropWhile isWhiteSpace (rev (dropWhile isWhiteSpace s)))"

text \<open>
  \<open>String.prototype.toUpperCase\<close> as it is on strings of ASCII characters: the letters
  \<open>a\<close> to \<open>z\<close> become \<open>A\<close> to \<open>Z\<close>, every other character is kept. On other characters
  the runtime's conversion is not this one; where a statement is about every string,
  the conversion is a parameter (\<open>serialNumberInput_onChange_with\<close>).
\<close>

definition isLower :: "char \<Rightarrow> bool" where
  "isLower c = (97 \<le> (of_char c :: nat) \<and> (of_char c :: nat) \<le> 122)"

definition upperChar :: "char \<Rightarrow> char" where
  "upperChar c = (if isLower c then char_of ((of_char c :: nat) - 32) else c)"

definition toUpperCase :: "string \<Rightarrow> string" where
  "toUpperCase s = map upperChar s"

subsection \<open>Stage selection and login\<close>

definition handleStageSelect :: "Stage option \<Rightarrow> App \<Rightarrow> App" where
  "handleStageSelect stg s =
     (let s1 = s\<lparr>selectedStage := stg\<rparr> in
      case currentUser s of
        Some u \<Rightarrow>
          if \<not> isAdmin u then
            if assignedStage u \<noteq> stg
            then s1\<lparr>app_error := Some (StageMismatch (assignedStage u))\<rparr>
            else s1\<lparr>currentStep := DEVICE_ID_ENTRY, app_error := None\<rparr>
          else s1\<lparr>currentStep := LOGIN, app_error := None\<rparr>
      | None \<Rightarrow> s1\<lparr>currentStep := LOGIN, app_error := None\<rparr>)"

definition handleAdminAccess :: "App \<Rightarrow> App" where
  "handleAdminAccess s =
     (let s1 = s\<lparr>selectedStage := None\<rparr> in
      case currentUser s of
        Some u \<Rightarrow>
          if isAdmin u then s1\<lparr>currentStep := ADMIN, app_error := None\<rparr>
          else s1\<lparr>currentStep := LOGIN, app_error := None\<rparr>
      | None \<Rightarrow> s1\<lparr>currentStep := LOGIN, app_error := None\<rparr>)"

definition handleLogin :: "string \<Rightarrow> string \<Rightarrow> App \<Rightarrow> App" where
  "handleLogin uid pw s =
     (let (users, st) = getStoredUsers (localStorage s);
          s0 = s\<lparr>localStorage := st\<rparr> in
      case find_first (\<lambda>u. userId u = uid \<and> password u = pw) users of
        Some user \<Rightarrow>
          if \<not> isActive user then s0\<lparr>app_error := Some AccountDisabled\<rparr>
          else if isAdmin user
          then s0\<lparr>currentUser := Some user, app_error := None, currentStep := ADMIN\<rparr>
          else if selectedStage s = None then s0\<lparr>app_error := Some StageNotSelected\<rparr>
          else if assignedStage user \<noteq> selectedStage s
          then s0\<lparr>app_error := Some (StageMismatch (assignedStage user))\<rparr>
          else s0\<lparr>currentUser := Some user, app_error := None,
                  currentStep := DEVICE_ID_ENTRY\<rparr>
      | None \<Rightarrow> s0\<lparr>app_error := Some InvalidCredentials\<rparr>)"

subsection \<open>Device identification\<close>

text \<open>The checklist built from a stage's template; any stage but \<open>'FQC'\<close> gets the packaging one.\<close>

definition buildChecklist :: "Stage option \<Rightarrow> CheckpointResult list" where
  "buildChecklist stg =
     (let baseCheckpoints = (if stg = Some FQC then FQC_CHECKPOINTS else PACKAGING_CHECKPOINTS)
      in map (\<lambda>(i, l). \<lparr>cp_id = i, label = l, status = None, cp_image = None, reason = []\<rparr>)
           baseCheckpoints)"

text \<open>
  The \<open>onChange\<close> handler of the serial-number input, for the input's new value, a string
  of ASCII characters.
\<close>

definition serialNumberInput_onChange :: "string \<Rightarrow> App \<Rightarrow> App" where
  "serialNumberInput_onChange v s = s\<lparr>app_deviceId := toUpperCase v\<rparr>"


definition handleDeviceSubmit :: "App \<Rightarrow> App" where
  "handleDeviceSubmit s =
     (if trim (app_deviceId s) = [] then s\<lparr>app_error := Some MissingDeviceId\<rparr>
      else if selectedStage s = Some Packaging \<and>
              (case getDeviceStatus (app_deviceId s) (localStorage s) of
                 None \<Rightarrow> True
               | Some deviceStatus \<Rightarrow> fqcStatus deviceStatus \<noteq> completed)
      then s\<lparr>app_error := Some StagePrerequisiteNotMet\<rparr>
      else s\<lparr>app_error := None, checkpoints := buildChecklist (selectedStage s),
             currentStep := CHECKLIST\<rparr>)"

text \<open>
  Scanning. \<open>startScanning\<close> with camera access granted (\<open>True\<close>) or denied. The video
  element (\<open>videoRef.current\<close>) exists on the scan screen only, and its stream is
  attached while \<open>scanning\<close> is set. \<open>detectCode\<close> for one frame, in which \<open>jsQR\<close>
  decoded \<open>Some code\<close> or nothing. The stage it reads is the one of the render in which
  scanning started; that is the selected stage, as long as the session does not change
  while the scanner runs.
\<close>

definition startScanning :: "bool \<Rightarrow> App \<Rightarrow> App" where
  "startScanning granted s =
     (if granted then (if currentStep s = SCAN_DEVICE_ID then s\<lparr>scanning := True\<rparr> else s)
      else s\<lparr>app_error := Some CameraAccessDenied\<rparr>)"

definition stopScanning :: "App \<Rightarrow> App" where
  "stopScanning s = (if currentStep s = SCAN_DEVICE_ID \<and> scanning s then s\<lparr>scanning := False\<rparr> else s)"

definition detectCode :: "string option \<Rightarrow> App \<Rightarrow> App" where
  "detectCode frame s =
     (if currentStep s \<noteq> SCAN_DEVICE_ID \<or> \<not> scanning s then s
      else case frame of
        Some code \<Rightarrow>
          (s\<lparr>app_deviceId := code, checkpoints := buildChecklist (selectedStage s),
             currentStep := CHECKLIST\<rparr>)\<lparr>scanning := False\<rparr>
      | None \<Rightarrow> s)"

subsection \<open>The checklist and its submission\<close>

text \<open>A partial update of a checkpoint: the fields present in \<open>updates\<close> replace the old ones.\<close>

datatype Update =
  SetLabel string | SetStatus CheckStatus | SetImage "string option" | SetReason string

definition applyUpdate :: "Update \<Rightarrow> CheckpointResult \<Rightarrow> CheckpointResult" where
  "applyUpdate u cp =
     (case u of
        SetLabel l \<Rightarrow> cp\<lparr>label := l\<rparr>
      | SetStatus v \<Rightarrow> cp\<lparr>status := Some v\<rparr>
      | SetImage i \<Rightarrow> cp\<lparr>cp_image := i\<rparr>
      | SetReason r \<Rightarrow> cp\<lparr>reason := r\<rparr>)"

definition handleCheckpointUpdate :: "string \<Rightarrow> Update \<Rightarrow> App \<Rightarrow> App" where
  "handleCheckpointUpdate i u s =
     s\<lparr>checkpoints := map (\<lambda>cp. if cp_id cp = i then applyUpdate u cp else cp) (checkpoints s)\<rparr>"

text \<open>\<open>newId\<close> stands for \<open>custom_\<close> followed by \<open>Date.now()\<close>.\<close>

definition handleAddCheckpoint :: "string \<Rightarrow> App \<Rightarrow> App" where
  "handleAddCheckpoint newId s =
     s\<lparr>checkpoints := checkpoints s @
          [\<lparr>cp_id = newId, label = ''New Checkpoint'', status = None, cp_image = None,
            reason = []\<rparr>],
       editingId := Some newId\<rparr>"

definition handleDeleteCheckpoint :: "string \<Rightarrow> App \<Rightarrow> App" where
  "handleDeleteCheckpoint i s =
     s\<lparr>checkpoints := filter (\<lambda>cp. cp_id cp \<noteq> i) (checkpoints s),
       editingId := (if editingId s = Some i then None else editingId s)\<rparr>"

text \<open>The completion check of \<open>handleFinalSubmit\<close> (\<open>isComplete\<close>), the validator \<open>canSubmit\<close>.\<close>

definition canSubmit :: "CheckpointResult list \<Rightarrow> bool" where
  "canSubmit cps =
     list_all (\<lambda>cp. status cp \<noteq> None \<and> cp_image cp \<noteq> None \<and>
                    (status cp = Some Pass \<or> (status cp = Some Fail \<and> trim (reason cp) \<noteq> [])))
       cps"

text \<open>The outcome that \<open>handleFinalSubmit\<close> records for a report.\<close>

definition outcome :: "CheckpointResult list \<Rightarrow> StageStatus" where
  "outcome cps = (if list_ex (\<lambda>cp. status cp = Some Fail) cps then failed else completed)"

text \<open>
  \<open>handleFinalSubmit\<close>, with the timer's callback run: \<open>t0\<close> is the clock at the click,
  \<open>t1\<close> and \<open>t2\<close> the clock at the two device-status updates of the callback. The
  callback works on the report, device and stage of the click.
\<close>

definition submitCallback :: "nat \<Rightarrow> nat \<Rightarrow> QCReport \<Rightarrow> string \<Rightarrow> Stage option \<Rightarrow> App \<Rightarrow> App" where
  "submitCallback t1 t2 report d stg s =
     (let st1 = saveReport t1 report (localStorage s);
          st2 = updateDeviceStatus t2 d stg (outcome (report_checkpoints report)) st1
      in s\<lparr>localStorage := st2, isSubmitting := False, currentStep := SUCCESS\<rparr>)"

definition handleFinalSubmit :: "nat \<Rightarrow> nat \<Rightarrow> nat \<Rightarrow> App \<Rightarrow> App" where
  "handleFinalSubmit t0 t1 t2 s =
     (if \<not> canSubmit (checkpoints s) then s\<lparr>alerts := alerts s @ [IncompleteChecklist]\<rparr>
      else
        let report = \<lparr>report_id = t0, timestamp = t0, stage = selectedStage s,
                      report_userId =
                        (case currentUser s of
                           Some u \<Rightarrow> if userId u = [] then ''Unknown'' else userId u
                         | None \<Rightarrow> ''Unknown''),
                      report_deviceId = app_deviceId s,
                      report_checkpoints = checkpoints s\<rparr>
        in submitCallback t1 t2 report (app_deviceId s) (selectedStage s)
             (s\<lparr>isSubmitting := True\<rparr>))"

definition resetApp :: "App \<Rightarrow> App" where
  "resetApp s =
     s\<lparr>app_deviceId := [], deviceImage := None, checkpoints := [],
       currentStep := DEVICE_ID_ENTRY\<rparr>"

definition logout :: "App \<Rightarrow> App" where
  "logout s =
     s\<lparr>currentUser := None, selectedStage := None, app_deviceId := [], deviceImage := None,
       checkpoints := [], app_error := None, currentStep := STAGE_SELECTION\<rparr>"

subsection \<open>The session as a machine of events\<close>

text \<open>
  One event is one action of the operator or of the camera. \<open>step\<close> runs the handler
  that the screen of the current step binds to it; an event whose control is not on
  the current screen changes nothing. The header's logout button is shown while a user
  is logged in, the admin console and the dashboard carry their own.
\<close>

datatype Event =
  StageSelect Stage | AdminAccess | Login string string | Back | LogoClick
  | SerialInput string | OpenScanner | StartScanning bool | StopScanning
  | Frame "string option" | DeviceSubmit
  | CheckpointUpdate string Update | AddCheckpoint string | DeleteCheckpoint string
  | FinalSubmit nat nat nat | NextDevice | Logout | OpenDashboard | ManageUsers

definition step :: "Event \<Rightarrow> App \<Rightarrow> App" where
  "step e s =
     (case (e, currentStep s) of
        (StageSelect stg, STAGE_SELECTION) \<Rightarrow> handleStageSelect (Some stg) s
      | (AdminAccess, STAGE_SELECTION) \<Rightarrow> handleAdminAccess s
      | (Login uid pw, LOGIN) \<Rightarrow> handleLogin uid pw s
      | (Back, LOGIN) \<Rightarrow> s\<lparr>currentStep := STAGE_SELECTION\<rparr>
      | (Back, DEVICE_ID_ENTRY) \<Rightarrow> s\<lparr>currentStep := STAGE_SELECTION\<rparr>
      | (SerialInput v, DEVICE_ID_ENTRY) \<Rightarrow> serialNumberInput_onChange v s
      | (OpenScanner, DEVICE_ID_ENTRY) \<Rightarrow> s\<lparr>currentStep := SCAN_DEVICE_ID\<rparr>
      | (DeviceSubmit, DEVICE_ID_ENTRY) \<Rightarrow> handleDeviceSubmit s
      | (Back, SCAN_DEVICE_ID) \<Rightarrow> s\<lparr>currentStep := DEVICE_ID_ENTRY\<rparr>
      | (StartScanning granted, SCAN_DEVICE_ID) \<Rightarrow> startScanning granted s
      | (StopScanning, SCAN_DEVICE_ID) \<Rightarrow> stopScanning s
      | (Frame f, SCAN_DEVICE_ID) \<Rightarrow> detectCode f s
      | (Back, CHECKLIST) \<Rightarrow> s\<lparr>currentStep := DEVICE_ID_ENTRY\<rparr>
      | (CheckpointUpdate i u, CHECKLIST) \<Rightarrow> handleCheckpointUpdate i u s
      | (AddCheckpoint i, CHECKLIST) \<Rightarrow> handleAddCheckpoint i s
      | (DeleteCheckpoint i, CHECKLIST) \<Rightarrow> handleDeleteCheckpoint i s
      | (FinalSubmit t0 t1 t2, CHECKLIST) \<Rightarrow>
          (if isSubmitting s then s else handleFinalSubmit t0 t1 t2 s)
      | (NextDevice, SUCCESS) \<Rightarrow> resetApp s
      | (OpenDashboard, ADMIN) \<Rightarrow> s\<lparr>currentStep := DASHBOARD\<rparr>
      | (Back, ADMIN) \<Rightarrow> s\<lparr>currentStep := STAGE_SELECTION\<rparr>
      | (Logout, ADMIN) \<Rightarrow> logout s
      | (Back, DASHBOARD) \<Rightarrow> s\<lparr>currentStep := STAGE_SELECTION\<rparr>
      | (ManageUsers, DASHBOARD) \<Rightarrow> s\<lparr>currentStep := ADMIN\<rparr>
      | (Logout, DASHBOARD) \<Rightarrow> logout s
      | (Logout, _) \<Rightarrow> (if currentUser s \<noteq> None then logout s else s)
      | (LogoClick, _) \<Rightarrow>
          (if currentUser s = None then s\<lparr>currentStep := STAGE_SELECTION\<rparr> else s)
      | _ \<Rightarrow> s)"

definition run :: "Event list \<Rightarrow> App \<Rightarrow> App" where
  "run es s = foldl (\<lambda>s e. step e s) s es"

subsection \<open>The dashboard and the CSV export\<close>

text \<open>The rows of the device table of \<open>renderDashboard\<close>: \<open>deviceStatuses.slice(0, 10)\<close>.\<close>

definition renderDashboard_deviceRows :: "Store \<Rightarrow> DeviceStatus list" where
  "renderDashboard_deviceRows st = take 10 (getDeviceStatuses st)"

definition dquote :: char where
  "dquote = CHR 0x22"

text \<open>\<open>.replace(/"/g, '""')\<close>: every double quote becomes two.\<close>

fun replaceQuotes :: "string \<Rightarrow> string" where
  "replaceQuotes [] = []"
| "replaceQuotes (c # cs) = (if c = dquote then [dquote, dquote] else [c]) @ replaceQuotes cs"

text \<open>
  The helper \<open>escape\<close> of \<open>handleExportCSV\<close>. A value that is \<open>null\<close> (\<open>None\<close>) or the
  empty string is falsy, and \<open>val || ''\<close> makes it the empty string.
\<close>

definition escape :: "string option \<Rightarrow> string" where
  "escape val =
     [dquote] @ replaceQuotes (case val of Some v \<Rightarrow> v | None \<Rightarrow> []) @ [dquote]"

section \<open>The admin directory (AdminPanel in App.tsx)\<close>

text \<open>
  The state of the \<open>AdminPanel\<close> component and the \<open>localStorage\<close> it writes to.
  \<open>searchResult\<close> is \<open>None\<close> for \<open>undefined\<close> and \<open>Some None\<close> for \<open>null\<close>.
\<close>

record AdminPanel =
  users :: "User list"
  newUserId :: string
  newPassword :: string
  newStage :: "Stage option"
  editingUserId :: "string option"
  searchResult :: "User option option"
  hasSearched :: bool
  panelStorage :: Store

definition mountAdminPanel :: "Store \<Rightarrow> AdminPanel" where
  "mountAdminPanel st =
     (let (us, st') = getStoredUsers st in
      \<lparr>users = us, newUserId = [], newPassword = [], newStage = Some FQC,
       editingUserId = None, searchResult = None, hasSearched = False,
       panelStorage = st'\<rparr>)"

text \<open>The form's submit handler: it creates a user, or updates the one being edited.\<close>

definition handleSubmit :: "AdminPanel \<Rightarrow> AdminPanel" where
  "handleSubmit p =
     (if newUserId p = [] \<or> newPassword p = [] then p
      else
        let editing = (case editingUserId p of Some e \<Rightarrow> e \<noteq> [] | None \<Rightarrow> False);
            updated =
              (if editing
               then map (\<lambda>u. if Some (userId u) = editingUserId p
                               then u\<lparr>password := newPassword p, assignedStage := newStage p\<rparr>
                               else u) (users p)
               else users p @
                      [\<lparr>userId = newUserId p, password = newPassword p, isAdmin = False,
                        isActive = True, assignedStage = newStage p\<rparr>])
        in p\<lparr>editingUserId := (if editing then None else editingUserId p),
              users := updated, panelStorage := saveUsers updated (panelStorage p),
              newUserId := [], newPassword := [], newStage := Some FQC,
              hasSearched := False\<rparr>)"

definition handleEdit :: "User \<Rightarrow> AdminPanel \<Rightarrow> AdminPanel" where
  "handleEdit user p =
     p\<lparr>editingUserId := Some (userId user), newUserId := userId user,
       newPassword := password user, newStage := assignedStage user\<rparr>"

definition cancelEdit :: "AdminPanel \<Rightarrow> AdminPanel" where
  "cancelEdit p = p\<lparr>editingUserId := None, newUserId := [], newPassword := [], newStage := Some FQC\<rparr>"

text \<open>\<open>deleteUser\<close>; \<open>confirmed\<close> is the answer to the confirmation dialog.\<close>

definition deleteUser :: "string \<Rightarrow> bool \<Rightarrow> AdminPanel \<Rightarrow> AdminPanel" where
  "deleteUser uid confirmed p =
     (if uid = ''admin'' then p
      else if \<not> confirmed then p
      else
        let updated = filter (\<lambda>u. userId u \<noteq> uid) (users p) in
        p\<lparr>users := updated, panelStorage := saveUsers updated (panelStorage p),
          searchResult :=
            (case searchResult p of
               Some (Some u) \<Rightarrow> if userId u = uid then Some None else searchResult p
             | _ \<Rightarrow> searchResult p)\<rparr>)"

definition toggleStatus :: "string \<Rightarrow> AdminPanel \<Rightarrow> AdminPanel" where
  "toggleStatus uid p =
     (if uid = ''admin'' then p
      else
        let updated = map (\<lambda>u. if userId u = uid then u\<lparr>isActive := \<not> isActive u\<rparr> else u)
                        (users p) in
        p\<lparr>users := updated, panelStorage := saveUsers updated (panelStorage p),
          searchResult :=
            (case searchResult p of
               Some (Some u) \<Rightarrow>
                 if userId u = uid
                 then map_option Some (find_first (\<lambda>u. userId u = uid) updated)
                 else searchResult p
             | _ \<Rightarrow> searchResult p)\<rparr>)"

section \<open>Reading a device-status record\<close>

definition stageField :: "Stage \<Rightarrow> DeviceStatus \<Rightarrow> StageStatus" where
  "stageField stg r = (case stg of FQC \<Rightarrow> fqcStatus r | Packaging \<Rightarrow> packagingStatus r)"

definition otherStage :: "Stage \<Rightarrow> Stage" where
  "otherStage stg = (case stg of FQC \<Rightarrow> Packaging | Packaging \<Rightarrow> FQC)"

text \<open>The record that \<open>updateDeviceStatus\<close> starts from when the device has none.\<close>

definition newStatus :: "nat \<Rightarrow> string \<Rightarrow> DeviceStatus" where
  "newStatus now d =
     \<lparr>deviceId = d, fqcStatus = pending, packagingStatus = pending, lastUpdated = now\<rparr>"

section \<open>Concrete sessions\<close>

text \<open>A store with the seeded admin and one packaging operator.\<close>

definition store0 :: Store where
  "store0 =
     emptyStore\<lparr>USERS_KEY :=
       Some [INITIAL_ADMIN_USER,
             \<lparr>userId = ''op2'', password = ''pw'', isAdmin = False, isActive = True,
              assignedStage = Some Packaging\<rparr>]\<rparr>"

text \<open>The operator logs in for Packaging, opens the scanner, and a frame decodes \<open>D1\<close>.\<close>

definition scanPath :: "Event list" where
  "scanPath =
     [StageSelect Packaging, Login ''op2'' ''pw'', OpenScanner, StartScanning True,
      Frame (Some ''D1'')]"

text \<open>Every checkpoint of the packaging template gets a pass and a photo.\<close>

definition passAll :: "Event list" where
  "passAll =
     concat (map (\<lambda>i. [CheckpointUpdate i (SetStatus Pass),
                        CheckpointUpdate i (SetImage (Some ''img''))])
               (map fst PACKAGING_CHECKPOINTS))"

text \<open>A checklist session for device \<open>D1\<close> with the given stage and checkpoints.\<close>

definition session :: "Stage \<Rightarrow> string \<Rightarrow> CheckpointResult list \<Rightarrow> Store \<Rightarrow> App" where
  "session stg d cps st =
     (initialApp st)\<lparr>currentStep := CHECKLIST, selectedStage := Some stg,
       app_deviceId := d, checkpoints := cps\<rparr>"

definition cpPass :: CheckpointResult where
  "cpPass = \<lparr>cp_id = ''scr_01'', label = ''Screen Surface Scratch Test'', status = Some Pass,
             cp_image = Some ''img'', reason = []\<rparr>"

definition cpFail :: CheckpointResult where
  "cpFail = \<lparr>cp_id = ''bat_02'', label = ''Battery Contact Alignment'', status = Some Fail,
             cp_image = Some ''img'', reason = ''bent''\<rparr>"

definition cpBlank :: CheckpointResult where
  "cpBlank = \<lparr>cp_id = ''btn_03'', label = ''Tactile Button Feedback'', status = Some Fail,
              cp_image = Some ''img'', reason = ''  ''\<rparr>"

definition statusD1 :: DeviceStatus where
  "statusD1 = \<lparr>deviceId = ''D1'', fqcStatus = completed, packagingStatus = pending,
               lastUpdated = 5\<rparr>"

definition statusD2 :: DeviceStatus where
  "statusD2 = \<lparr>deviceId = ''D2'', fqcStatus = failed, packagingStatus = pending,
               lastUpdated = 7\<rparr>"

text \<open>Eleven devices, each with a fresh record, \<open>D01\<close> stamped 1 up to \<open>D11\<close> stamped 11.\<close>

definition elevenStatuses :: "DeviceStatus list" where
  "elevenStatuses =
     [newStatus 1 ''D01'', newStatus 2 ''D02'', newStatus 3 ''D03'', newStatus 4 ''D04'',
      newStatus 5 ''D05'', newStatus 6 ''D06'', newStatus 7 ''D07'', newStatus 8 ''D08'',
      newStatus 9 ''D09'', newStatus 10 ''D10'', newStatus 11 ''D11'']"

text \<open>The device-status writes among the writes of a store.\<close>

fun deviceStatusWrites :: "Write list \<Rightarrow> DeviceStatus list list" where
  "deviceStatusWrites [] = []"
| "deviceStatusWrites (SetDeviceStatus ds # ws) = ds # deviceStatusWrites ws"
| "deviceStatusWrites (_ # ws) = deviceStatusWrites ws"

text \<open>The admin panel with \<open>uid\<close> and \<open>pw\<close> typed into the form.\<close>

definition typedForm :: "string \<Rightarrow> string \<Rightarrow> AdminPanel \<Rightarrow> AdminPanel" where
  "typedForm uid pw p = p\<lparr>newUserId := uid, newPassword := pw\<rparr>"

section \<open>Lemmas on the list operations\<close>

lemma trim_nonempty_iff: "trim s \<noteq> [] \<longleftrightarrow> (\<exists>c \<in> set s. \<not> isWhiteSpace c)"
proof -
  have a: "dropWhile isWhiteSpace s \<noteq> [] \<longleftrightarrow> (\<exists>c \<in> set s. \<not> isWhiteSpace c)"
    by (simp add: dropWhile_eq_Nil_conv)
  have "trim s \<noteq> [] \<longleftrightarrow> (\<exists>c \<in> set (dropWhile isWhiteSpace s). \<not> isWhiteSpace c)"
    by (simp add: trim_def dropWhile_eq_Nil_conv)
  also have "\<dots> \<longleftrightarrow> dropWhile isWhiteSpace s \<noteq> []"
    by (metis hd_dropWhile hd_in_set empty_iff list.set(1))
  finally show ?thesis using a by simp
qed

lemma findIndex_None: "findIndex p xs = None \<longleftrightarrow> find_first p xs = None"
  by (induction xs) auto

lemma findIndex_Some:
  "findIndex p xs = Some i \<Longrightarrow> i < length xs \<and> find_first p xs = Some (xs ! i)"
  by (induction xs arbitrary: i) (auto split: if_splits)

lemma findIndex_Some_p: "findIndex p xs = Some i \<Longrightarrow> p (xs ! i)"
  by (induction xs arbitrary: i) (auto split: if_splits)

lemma find_first_update:
  "findIndex p xs = Some i \<Longrightarrow> p y \<Longrightarrow> find_first p (xs[i := y]) = Some y"
  by (induction xs arbitrary: i) (auto split: if_splits)

lemma find_first_append:
  "find_first p xs = None \<Longrightarrow> find_first p (xs @ [y]) = (if p y then Some y else None)"
  by (induction xs) (auto split: if_splits)

lemma find_first_Some: "find_first p xs = Some x \<Longrightarrow> p x \<and> x \<in> set xs"
  by (induction xs) (auto split: if_splits)

lemma find_first_distinct:
  "distinct (map f xs) \<Longrightarrow> x \<in> set xs \<Longrightarrow> find_first (\<lambda>y. f y = f x) xs = Some x"
  by (induction xs) (auto simp: image_iff)

text \<open>An update at the first match, written with the part before and the part after it.\<close>

lemma list_update_first:
  "findIndex p xs = Some i \<Longrightarrow>
   xs[i := y] = takeWhile (\<lambda>x. \<not> p x) xs @ y # tl (dropWhile (\<lambda>x. \<not> p x) xs)"
  by (induction xs arbitrary: i) (auto split: if_splits)

lemma filter_update_other:
  "findIndex p xs = Some i \<Longrightarrow> p y \<Longrightarrow>
   filter (\<lambda>x. \<not> p x) (xs[i := y]) = filter (\<lambda>x. \<not> p x) xs"
  by (induction xs arbitrary: i) (auto split: if_splits)

section \<open>Lemmas on the device-status store\<close>

lemma deviceId_setStageField [simp]: "deviceId (setStageField stg v r) = deviceId r"
  by (simp add: setStageField_def split: option.splits Stage.splits)

lemma lastUpdated_setStageField [simp]: "lastUpdated (setStageField stg v r) = lastUpdated r"
  by (simp add: setStageField_def split: option.splits Stage.splits)

lemma stageField_setStageField [simp]: "stageField stg (setStageField (Some stg) v r) = v"
  by (simp add: setStageField_def stageField_def split: Stage.splits)

lemma otherStage_setStageField [simp]:
  "stageField (otherStage stg) (setStageField (Some stg) v r) = stageField (otherStage stg) r"
  by (simp add: setStageField_def stageField_def otherStage_def split: Stage.splits)

lemma stageField_lastUpdated [simp]: "stageField stg (r\<lparr>lastUpdated := t\<rparr>) = stageField stg r"
  by (simp add: stageField_def split: Stage.splits)

lemma deviceId_newStatus [simp]: "deviceId (newStatus now d) = d"
  by (simp add: newStatus_def)

lemma stageField_newStatus [simp]: "stageField stg (newStatus now d) = pending"
  by (simp add: stageField_def newStatus_def split: Stage.splits)

text \<open>The record found for a device after an update of that device.\<close>

lemma getDeviceStatus_update:
  "getDeviceStatus d (updateDeviceStatus now d stg v st) =
     Some ((setStageField stg v
             (case getDeviceStatus d st of None \<Rightarrow> newStatus now d | Some r \<Rightarrow> r))
           \<lparr>lastUpdated := now\<rparr>)"
proof (cases "findIndex (\<lambda>s. deviceId s = d) (DEVICE_STATUS_KEY st)")
  case None
  then have "find_first (\<lambda>s. deviceId s = d) (DEVICE_STATUS_KEY st) = None"
    by (simp add: findIndex_None)
  with None show ?thesis
    by (simp add: getDeviceStatus_def updateDeviceStatus_def getDeviceStatuses_def Let_def
        find_first_append newStatus_def setStageField_def split: option.splits Stage.splits)
next
  case (Some i)
  have f: "find_first (\<lambda>s. deviceId s = d) (DEVICE_STATUS_KEY st) = Some (DEVICE_STATUS_KEY st ! i)"
    using findIndex_Some [OF Some] by simp
  have "deviceId (DEVICE_STATUS_KEY st ! i) = d"
    using findIndex_Some_p [OF Some] by simp
  with f Some show ?thesis
    by (simp add: getDeviceStatus_def updateDeviceStatus_def getDeviceStatuses_def Let_def
        find_first_update)
qed

lemma newStatus_lastUpdated [simp]:
  "(setStageField stg v (newStatus now d))\<lparr>lastUpdated := now\<rparr> = setStageField stg v (newStatus now d)"
  by (simp add: setStageField_def newStatus_def split: option.splits Stage.splits)

text \<open>The collection after an update, around the record that is then found.\<close>

lemma statuses_update:
  "getDeviceStatuses (updateDeviceStatus now d stg v st) =
     (case getDeviceStatus d st of
        None \<Rightarrow> getDeviceStatuses st @ [setStageField stg v (newStatus now d)]
      | Some r \<Rightarrow>
          takeWhile (\<lambda>x. deviceId x \<noteq> d) (getDeviceStatuses st) @
          (setStageField stg v r)\<lparr>lastUpdated := now\<rparr> #
          tl (dropWhile (\<lambda>x. deviceId x \<noteq> d) (getDeviceStatuses st)))"
proof (cases "findIndex (\<lambda>s. deviceId s = d) (DEVICE_STATUS_KEY st)")
  case None
  then have "find_first (\<lambda>s. deviceId s = d) (DEVICE_STATUS_KEY st) = None"
    by (simp add: findIndex_None)
  with None show ?thesis
    by (simp add: getDeviceStatus_def updateDeviceStatus_def getDeviceStatuses_def Let_def
        newStatus_def)
next
  case (Some i)
  have "find_first (\<lambda>s. deviceId s = d) (DEVICE_STATUS_KEY st) = Some (DEVICE_STATUS_KEY st ! i)"
    using findIndex_Some [OF Some] by simp
  with Some list_update_first [OF Some] show ?thesis
    by (simp add: getDeviceStatus_def updateDeviceStatus_def getDeviceStatuses_def Let_def)
qed

text \<open>The device identifiers of the collection, in their order, after an update.\<close>

lemma deviceIds_update:
  "map deviceId (getDeviceStatuses (updateDeviceStatus now d stg v st)) =
     (case getDeviceStatus d st of
        None \<Rightarrow> map deviceId (getDeviceStatuses st) @ [d]
      | Some r \<Rightarrow> map deviceId (getDeviceStatuses st))"
proof (cases "findIndex (\<lambda>s. deviceId s = d) (DEVICE_STATUS_KEY st)")
  case None
  then have "find_first (\<lambda>s. deviceId s = d) (DEVICE_STATUS_KEY st) = None"
    by (simp add: findIndex_None)
  with None show ?thesis
    by (simp add: getDeviceStatus_def updateDeviceStatus_def getDeviceStatuses_def Let_def)
next
  case (Some i)
  have f: "find_first (\<lambda>s. deviceId s = d) (DEVICE_STATUS_KEY st) = Some (DEVICE_STATUS_KEY st ! i)"
    using findIndex_Some [OF Some] by simp
  have "map deviceId ((DEVICE_STATUS_KEY st)[i :=
          (setStageField stg v (DEVICE_STATUS_KEY st ! i))\<lparr>lastUpdated := now\<rparr>]) =
        map deviceId (DEVICE_STATUS_KEY st)"
    using findIndex_Some [OF Some] by (simp add: map_update list_update_same_conv)
  with Some f show ?thesis
    by (simp add: getDeviceStatus_def updateDeviceStatus_def getDeviceStatuses_def Let_def)
qed

text \<open>The records of the other devices, in their order, after an update.\<close>

lemma others_update:
  "filter (\<lambda>r. deviceId r \<noteq> d) (getDeviceStatuses (updateDeviceStatus now d stg v st)) =
   filter (\<lambda>r. deviceId r \<noteq> d) (getDeviceStatuses st)"
proof (cases "findIndex (\<lambda>s. deviceId s = d) (DEVICE_STATUS_KEY st)")
  case None
  then show ?thesis
    by (simp add: updateDeviceStatus_def getDeviceStatuses_def Let_def)
next
  case (Some i)
  then show ?thesis
    using filter_update_other [of "\<lambda>s. deviceId s = d" "DEVICE_STATUS_KEY st" i]
      findIndex_Some_p [OF Some]
    by (simp add: updateDeviceStatus_def getDeviceStatuses_def Let_def)
qed

lemma length_update:
  "length (getDeviceStatuses (updateDeviceStatus now d stg v st)) =
     (case getDeviceStatus d st of
        None \<Rightarrow> Suc (length (getDeviceStatuses st))
      | Some r \<Rightarrow> length (getDeviceStatuses st))"
proof (cases "findIndex (\<lambda>s. deviceId s = d) (DEVICE_STATUS_KEY st)")
  case None
  then have "find_first (\<lambda>s. deviceId s = d) (DEVICE_STATUS_KEY st) = None"
    by (simp add: findIndex_None)
  with None show ?thesis
    by (simp add: getDeviceStatus_def updateDeviceStatus_def getDeviceStatuses_def Let_def)
next
  case (Some i)
  have "find_first (\<lambda>s. deviceId s = d) (DEVICE_STATUS_KEY st) = Some (DEVICE_STATUS_KEY st ! i)"
    using findIndex_Some [OF Some] by simp
  with Some show ?thesis
    by (simp add: getDeviceStatus_def updateDeviceStatus_def getDeviceStatuses_def Let_def)
qed

lemma other_keys_update:
  "USERS_KEY (updateDeviceStatus now d stg v st) = USERS_KEY st \<and>
   REPORTS_KEY (updateDeviceStatus now d stg v st) = REPORTS_KEY st"
  by (simp add: updateDeviceStatus_def Let_def)

text \<open>An update keeps the device identifiers of the collection pairwise distinct.\<close>

lemma distinct_update:
  assumes "distinct (map deviceId (getDeviceStatuses st))"
  shows "distinct (map deviceId (getDeviceStatuses (updateDeviceStatus now d stg v st)))"
proof (cases "findIndex (\<lambda>s. deviceId s = d) (DEVICE_STATUS_KEY st)")
  case None
  then have "find_first (\<lambda>s. deviceId s = d) (DEVICE_STATUS_KEY st) = None"
    by (simp add: findIndex_None)
  then have "d \<notin> deviceId ` set (DEVICE_STATUS_KEY st)"
    using find_first_distinct [of deviceId "DEVICE_STATUS_KEY st"] assms
    by (auto simp: getDeviceStatuses_def)
  with None assms show ?thesis
    by (simp add: updateDeviceStatus_def getDeviceStatuses_def Let_def)
next
  case (Some i)
  have "map deviceId ((DEVICE_STATUS_KEY st)[i :=
          (setStageField stg v (DEVICE_STATUS_KEY st ! i))\<lparr>lastUpdated := now\<rparr>]) =
        map deviceId (DEVICE_STATUS_KEY st)"
    using findIndex_Some [OF Some] by (simp add: map_update list_update_same_conv)
  with Some assms show ?thesis
    by (simp add: updateDeviceStatus_def getDeviceStatuses_def Let_def)
qed

text \<open>
  With pairwise distinct device identifiers, the record that \<open>getDeviceStatus\<close> finds
  for a device is the only record of that device.
\<close>

lemma getDeviceStatus_exists_iff:
  assumes "distinct (map deviceId (getDeviceStatuses st))"
  shows "(\<exists>r. getDeviceStatus d st = Some r \<and> P r) \<longleftrightarrow>
         (\<exists>r \<in> set (getDeviceStatuses st). deviceId r = d \<and> P r)"
proof
  assume "\<exists>r. getDeviceStatus d st = Some r \<and> P r"
  then obtain r where "getDeviceStatus d st = Some r" "P r" by blast
  then show "\<exists>r \<in> set (getDeviceStatuses st). deviceId r = d \<and> P r"
    using find_first_Some [of "\<lambda>s. deviceId s = d" "getDeviceStatuses st" r]
    by (auto simp: getDeviceStatus_def)
next
  assume "\<exists>r \<in> set (getDeviceStatuses st). deviceId r = d \<and> P r"
  then obtain r where r: "r \<in> set (getDeviceStatuses st)" "deviceId r = d" "P r" by blast
  from find_first_distinct [OF assms r(1)] r(2)
  have "getDeviceStatus d st = Some r" by (simp add: getDeviceStatus_def)
  with r(3) show "\<exists>r. getDeviceStatus d st = Some r \<and> P r" by blast
qed


lemma getDeviceStatus_saveReport:
  "getDeviceStatus (report_deviceId report) (saveReport now report st) =
     Some ((setStageField (stage report) completed
             (case getDeviceStatus (report_deviceId report) st of
                None \<Rightarrow> newStatus now (report_deviceId report) | Some r \<Rightarrow> r))
           \<lparr>lastUpdated := now\<rparr>)"
proof -
  have "getDeviceStatus d (st\<lparr>REPORTS_KEY := rs, writes := ws\<rparr>) = getDeviceStatus d st"
    for d rs ws
    by (simp add: getDeviceStatus_def getDeviceStatuses_def)
  then show ?thesis
    by (simp add: saveReport_def Let_def getDeviceStatus_update)
qed

lemma outcome_iff:
  "outcome cps = (if \<exists>cp \<in> set cps. status cp = Some Fail then failed else completed)"
  by (simp add: outcome_def list_ex_iff)

section \<open>Lemmas on strings\<close>

lemma upperChar_neq: "isLower c \<Longrightarrow> upperChar c \<noteq> c"
proof
  assume l: "isLower c" and e: "upperChar c = c"
  define n where "n = (of_char c :: nat)"
  from l have b: "97 \<le> n" "n \<le> 122" by (simp_all add: isLower_def n_def)
  from l e have "char_of (n - 32) = c" by (simp add: upperChar_def n_def)
  then have "(of_char (char_of (n - 32) :: char) :: nat) = of_char c" by (rule arg_cong)
  then have "(n - 32) mod 256 = n" by (simp only: of_char_of n_def)
  moreover from b have "(n - 32) mod 256 = n - 32" by (intro mod_less) linarith
  ultimately have "n - 32 = n" by simp
  with b show False by linarith
qed

lemma toUpperCase_neq: "\<exists>c \<in> set s. isLower c \<Longrightarrow> toUpperCase s \<noteq> s"
  by (induction s) (auto simp: toUpperCase_def upperChar_neq)



lemma replaceQuotes_concat:
  "replaceQuotes v = concat (map (\<lambda>c. if c = dquote then [dquote, dquote] else [c]) v)"
  by (induction v) auto

lemma replaceQuotes_id: "dquote \<notin> set v \<Longrightarrow> replaceQuotes v = v"
  by (induction v) auto

lemma length_replaceQuotes: "length v \<le> length (replaceQuotes v)"
  by (induction v) auto

section \<open>The claims\<close>

text \<open>
  C1. The completion validator holds of a checkpoint list exactly when every checkpoint
  has a status, has an image, and is a pass or a fail with a reason that is not empty
  after trimming. When it does not hold, \<open>handleFinalSubmit\<close> leaves the store as it
  was (no write), stays on the same step, and shows the alert.
\<close>

theorem canSubmit_iff:
  "(canSubmit c \<longleftrightarrow>
      (\<forall>cp \<in> set c. status cp \<noteq> None \<and> cp_image cp \<noteq> None \<and>
         (status cp = Some Pass \<or> (status cp = Some Fail \<and> trim (reason cp) \<noteq> []))))
   \<and> (\<not> canSubmit (checkpoints s) \<longrightarrow>
         localStorage (handleFinalSubmit t0 t1 t2 s) = localStorage s
       \<and> currentStep (handleFinalSubmit t0 t1 t2 s) = currentStep s
       \<and> alerts (handleFinalSubmit t0 t1 t2 s) = alerts s @ [IncompleteChecklist])"
  by (simp add: canSubmit_def handleFinalSubmit_def list_all_iff)

theorem canSubmit_iff_witness:
  "canSubmit [cpPass, cpFail] \<and> \<not> canSubmit [cpPass, cpBlank]
   \<and> localStorage (handleFinalSubmit 1 2 3 (session FQC ''D1'' [cpPass, cpBlank] store0)) = store0
   \<and> currentStep (handleFinalSubmit 1 2 3 (session FQC ''D1'' [cpPass, cpBlank] store0)) = CHECKLIST"
proof -
  have a: "canSubmit [cpPass, cpFail]"
    using canSubmit_iff [of "[cpPass, cpFail]" "session FQC ''D1'' [cpPass, cpBlank] store0" 1 2 3]
    by (simp add: cpPass_def cpFail_def trim_def isWhiteSpace_def)
  have b: "\<not> canSubmit (checkpoints (session FQC ''D1'' [cpPass, cpBlank] store0))"
    using canSubmit_iff [of "[cpPass, cpBlank]" "session FQC ''D1'' [cpPass, cpBlank] store0" 1 2 3]
    by (simp add: session_def cpPass_def cpBlank_def trim_def isWhiteSpace_def)
  from b canSubmit_iff [of "[cpPass, cpBlank]" "session FQC ''D1'' [cpPass, cpBlank] store0" 1 2 3]
  have "localStorage (handleFinalSubmit 1 2 3 (session FQC ''D1'' [cpPass, cpBlank] store0)) =
          localStorage (session FQC ''D1'' [cpPass, cpBlank] store0)
        \<and> currentStep (handleFinalSubmit 1 2 3 (session FQC ''D1'' [cpPass, cpBlank] store0)) =
          currentStep (session FQC ''D1'' [cpPass, cpBlank] store0)"
    by simp
  moreover have "localStorage (session FQC ''D1'' [cpPass, cpBlank] store0) = store0"
    "currentStep (session FQC ''D1'' [cpPass, cpBlank] store0) = CHECKLIST"
    "checkpoints (session FQC ''D1'' [cpPass, cpBlank] store0) = [cpPass, cpBlank]"
    by (simp_all add: session_def initialApp_def)
  ultimately show ?thesis using a b by simp
qed

text \<open>
  C2, as stated, fails for an identifier that is empty after trimming: with nothing
  but a space typed and the Packaging stage selected, the entry is refused with
  \<open>MissingDeviceId\<close>, not with \<open>StagePrerequisiteNotMet\<close>, and it is refused also when
  the store holds a record for that identifier with a completed FQC.
\<close>

theorem packaging_gate_counterexample:
  "getDeviceStatus '' '' emptyStore = None
   \<and> app_error (handleDeviceSubmit (serialNumberInput_onChange '' ''
        ((initialApp emptyStore)\<lparr>currentStep := DEVICE_ID_ENTRY,
           selectedStage := Some Packaging\<rparr>))) = Some MissingDeviceId
   \<and> getDeviceStatus '' '' (updateDeviceStatus 1 '' '' (Some FQC) completed emptyStore) =
       Some \<lparr>deviceId = '' '', fqcStatus = completed, packagingStatus = pending,
             lastUpdated = 1\<rparr>
   \<and> currentStep (handleDeviceSubmit (serialNumberInput_onChange '' ''
        ((initialApp (updateDeviceStatus 1 '' '' (Some FQC) completed emptyStore))
           \<lparr>currentStep := DEVICE_ID_ENTRY, selectedStage := Some Packaging\<rparr>))) =
       DEVICE_ID_ENTRY"
  by code_simp

text \<open>
  C2, amended. A device identifier that is empty after trimming is refused with
  \<open>MissingDeviceId\<close>. For one that is not empty after trimming: with the
  Packaging stage selected, \<open>handleDeviceSubmit\<close> builds the packaging checklist and
  moves to the checklist step if the store's record for the identifier has
  \<open>fqcStatus = completed\<close>; otherwise it only sets the message
  \<open>StagePrerequisiteNotMet\<close> and changes nothing else. With the FQC stage selected
  it always builds the FQC checklist and moves to the checklist step.
\<close>

theorem packaging_gate:
  "(trim (app_deviceId s) = [] \<longrightarrow>
      handleDeviceSubmit s = s\<lparr>app_error := Some MissingDeviceId\<rparr>)
   \<and> (trim (app_deviceId s) \<noteq> [] \<longrightarrow>
        (selectedStage s = Some Packaging \<longrightarrow>
           (if \<exists>r. getDeviceStatus (app_deviceId s) (localStorage s) = Some r
                    \<and> fqcStatus r = completed
            then handleDeviceSubmit s =
                   s\<lparr>app_error := None, checkpoints := buildChecklist (Some Packaging),
                     currentStep := CHECKLIST\<rparr>
            else handleDeviceSubmit s = s\<lparr>app_error := Some StagePrerequisiteNotMet\<rparr>))
      \<and> (selectedStage s = Some FQC \<longrightarrow>
            handleDeviceSubmit s =
              s\<lparr>app_error := None, checkpoints := buildChecklist (Some FQC),
                currentStep := CHECKLIST\<rparr>))"
  by (auto simp: handleDeviceSubmit_def split: option.splits)

theorem packaging_gate_witness:
  "trim ''D1'' \<noteq> []
   \<and> currentStep (handleDeviceSubmit (serialNumberInput_onChange ''d1''
        ((initialApp (emptyStore\<lparr>DEVICE_STATUS_KEY := [statusD1, statusD2]\<rparr>))
           \<lparr>currentStep := DEVICE_ID_ENTRY, selectedStage := Some Packaging\<rparr>))) = CHECKLIST
   \<and> app_error (handleDeviceSubmit (serialNumberInput_onChange ''d2''
        ((initialApp (emptyStore\<lparr>DEVICE_STATUS_KEY := [statusD1, statusD2]\<rparr>))
           \<lparr>currentStep := DEVICE_ID_ENTRY, selectedStage := Some Packaging\<rparr>))) =
       Some StagePrerequisiteNotMet"
proof -
  let ?st = "emptyStore\<lparr>DEVICE_STATUS_KEY := [statusD1, statusD2]\<rparr>"
  let ?s0 = "(initialApp ?st)\<lparr>currentStep := DEVICE_ID_ENTRY, selectedStage := Some Packaging\<rparr>"
  let ?s1 = "serialNumberInput_onChange ''d1'' ?s0"
  let ?s2 = "serialNumberInput_onChange ''d2'' ?s0"
  have u: "toUpperCase ''d1'' = ''D1''" "toUpperCase ''d2'' = ''D2''" by code_simp+
  have t: "trim ''D1'' \<noteq> []" "trim ''D2'' \<noteq> []" by code_simp+
  have i1: "app_deviceId ?s1 = ''D1''" "selectedStage ?s1 = Some Packaging"
    "localStorage ?s1 = ?st"
    by (simp_all add: serialNumberInput_onChange_def u initialApp_def)
  have i2: "app_deviceId ?s2 = ''D2''" "selectedStage ?s2 = Some Packaging"
    "localStorage ?s2 = ?st"
    by (simp_all add: serialNumberInput_onChange_def u initialApp_def)
  have g1: "getDeviceStatus ''D1'' ?st = Some statusD1"
    by (simp add: getDeviceStatus_def getDeviceStatuses_def emptyStore_def statusD1_def)
  have g2: "getDeviceStatus ''D2'' ?st = Some statusD2"
    by (simp add: getDeviceStatus_def getDeviceStatuses_def emptyStore_def statusD1_def
        statusD2_def)
  have "currentStep (handleDeviceSubmit ?s1) = CHECKLIST"
    using packaging_gate [of ?s1] t i1 g1 by (simp add: statusD1_def)
  moreover have "app_error (handleDeviceSubmit ?s2) = Some StagePrerequisiteNotMet"
    using packaging_gate [of ?s2] t i2 g2 by (simp add: statusD2_def)
  ultimately show ?thesis using t by simp
qed

text \<open>
  C3. After a submission that passes the completion check, for the stage \<open>stg\<close> of the
  session: the store has a record for the device; its field for \<open>stg\<close> is \<open>failed\<close> if
  some checkpoint failed and \<open>completed\<close> if all passed; its field for the other stage
  is the one of the record the device had before, and \<open>pending\<close> if it had none.
\<close>

theorem submission_outcome:
  assumes "canSubmit (checkpoints s)" and "selectedStage s = Some stg"
  shows "\<exists>r. getDeviceStatus (app_deviceId s) (localStorage (handleFinalSubmit t0 t1 t2 s)) = Some r
     \<and> ((\<exists>cp \<in> set (checkpoints s). status cp = Some Fail) \<longrightarrow> stageField stg r = failed)
     \<and> ((\<forall>cp \<in> set (checkpoints s). status cp = Some Pass) \<longrightarrow> stageField stg r = completed)
     \<and> stageField (otherStage stg) r =
         (case getDeviceStatus (app_deviceId s) (localStorage s) of
            None \<Rightarrow> pending
          | Some r0 \<Rightarrow> stageField (otherStage stg) r0)"
proof -
  let ?d = "app_deviceId s"
  let ?report = "\<lparr>report_id = t0, timestamp = t0, stage = selectedStage s,
      report_userId =
        (case currentUser s of
           Some u \<Rightarrow> if userId u = [] then ''Unknown'' else userId u
         | None \<Rightarrow> ''Unknown''),
      report_deviceId = ?d, report_checkpoints = checkpoints s\<rparr>"
  let ?st1 = "saveReport t1 ?report (localStorage s)"
  let ?r1 = "(setStageField (Some stg) completed
               (case getDeviceStatus ?d (localStorage s) of
                  None \<Rightarrow> newStatus t1 ?d | Some r \<Rightarrow> r))\<lparr>lastUpdated := t1\<rparr>"
  let ?r2 = "(setStageField (Some stg) (outcome (checkpoints s)) ?r1)\<lparr>lastUpdated := t2\<rparr>"
  have st: "localStorage (handleFinalSubmit t0 t1 t2 s) =
              updateDeviceStatus t2 ?d (Some stg) (outcome (checkpoints s)) ?st1"
    using assms by (simp add: handleFinalSubmit_def submitCallback_def Let_def)
  have g1: "getDeviceStatus ?d ?st1 = Some ?r1"
    using getDeviceStatus_saveReport [of ?report t1 "localStorage s"] assms(2)
    by (simp split: option.splits)
  have g2: "getDeviceStatus ?d (localStorage (handleFinalSubmit t0 t1 t2 s)) = Some ?r2"
    by (simp only: st getDeviceStatus_update g1 option.case)
  have pass: "\<not> (\<exists>cp \<in> set (checkpoints s). status cp = Some Fail)"
    if "\<forall>cp \<in> set (checkpoints s). status cp = Some Pass"
    using that by auto
  have f: "stageField stg ?r2 = outcome (checkpoints s)" by simp
  have o: "stageField (otherStage stg) ?r2 =
         (case getDeviceStatus ?d (localStorage s) of
            None \<Rightarrow> pending
          | Some r0 \<Rightarrow> stageField (otherStage stg) r0)"
    by (simp split: option.splits)
  show ?thesis
    using g2 f o pass by (auto simp: outcome_iff)
qed

theorem submission_outcome_witness:
  "canSubmit (checkpoints (session Packaging ''D1'' [cpPass, cpFail]
       (emptyStore\<lparr>DEVICE_STATUS_KEY := [statusD1, statusD2]\<rparr>)))
   \<and> getDeviceStatus ''D1'' (localStorage (handleFinalSubmit 10 11 12
        (session Packaging ''D1'' [cpPass, cpFail]
           (emptyStore\<lparr>DEVICE_STATUS_KEY := [statusD1, statusD2]\<rparr>)))) =
       Some \<lparr>deviceId = ''D1'', fqcStatus = completed, packagingStatus = failed,
             lastUpdated = 12\<rparr>"
proof -
  let ?s = "session Packaging ''D1'' [cpPass, cpFail]
              (emptyStore\<lparr>DEVICE_STATUS_KEY := [statusD1, statusD2]\<rparr>)"
  have c: "canSubmit (checkpoints ?s)" by code_simp
  have g: "selectedStage ?s = Some Packaging" by (simp add: session_def)
  have e: "getDeviceStatus ''D1'' (localStorage (handleFinalSubmit 10 11 12 ?s)) =
       Some \<lparr>deviceId = ''D1'', fqcStatus = completed, packagingStatus = failed,
             lastUpdated = 12\<rparr>"
    by code_simp
  from submission_outcome [OF c g, of 10 11 12] c e show ?thesis by simp
qed

text \<open>
  C4 fails on the code. A submission writes the device status twice: \<open>saveReport\<close>
  itself calls \<open>updateDeviceStatus\<close> with the constant \<open>'completed'\<close> after it has written
  the report, and \<open>handleFinalSubmit\<close> calls it again with the outcome of the
  checkpoints. For an FQC report of device \<open>D1\<close> with one failed checkpoint, the writes
  are the report, then the device status with \<open>fqcStatus = completed\<close>, then the
  device status with \<open>fqcStatus = failed\<close>.
\<close>

theorem submission_writes_status_twice:
  "canSubmit [cpFail]
   \<and> outcome [cpFail] = failed
   \<and> deviceStatusWrites (writes (localStorage
        (handleFinalSubmit 10 11 12 (session FQC ''D1'' [cpFail] emptyStore)))) =
       [\<lparr>deviceId = ''D1'', fqcStatus = completed, packagingStatus = pending,
          lastUpdated = 11\<rparr>] #
       [\<lparr>deviceId = ''D1'', fqcStatus = failed, packagingStatus = pending,
          lastUpdated = 12\<rparr>] # []
   \<and> length (writes (localStorage
        (handleFinalSubmit 10 11 12 (session FQC ''D1'' [cpFail] emptyStore)))) = 3"
  by code_simp

text \<open>
  C5 fails on the code. The scan path does not consult the device status: a packaging
  operator who scans the code \<open>D1\<close>, a device with no record at all, reaches the
  packaging checklist, and the submission then moves \<open>packagingStatus\<close> from pending to
  completed while \<open>fqcStatus\<close> is pending. Typing the same identifier is refused.
\<close>

theorem scan_path_skips_gate:
  "getDeviceStatus ''D1'' (localStorage (initialApp store0)) = None
   \<and> currentStep (run scanPath (initialApp store0)) = CHECKLIST
   \<and> selectedStage (run scanPath (initialApp store0)) = Some Packaging
   \<and> app_deviceId (run scanPath (initialApp store0)) = ''D1''
   \<and> getDeviceStatus ''D1'' (localStorage
        (run (scanPath @ passAll @ [FinalSubmit 10 11 12]) (initialApp store0))) =
       Some \<lparr>deviceId = ''D1'', fqcStatus = pending, packagingStatus = completed,
             lastUpdated = 12\<rparr>
   \<and> app_error (run [StageSelect Packaging, Login ''op2'' ''pw'', SerialInput ''D1'',
        DeviceSubmit] (initialApp store0)) = Some StagePrerequisiteNotMet
   \<and> currentStep (run [StageSelect Packaging, Login ''op2'' ''pw'', SerialInput ''D1'',
        DeviceSubmit] (initialApp store0)) = DEVICE_ID_ENTRY"
  by code_simp

text \<open>
  C6, as stated, fails in its time stamp: \<open>lastUpdated\<close> becomes the clock reading of
  the call, and that is not later than the stored one when the clock has not advanced.
  Two updates of device \<open>D1\<close> for the FQC stage at the same reading 11 leave
  \<open>lastUpdated\<close> at 11; these are the two updates that one submission makes when its
  callback runs within one millisecond.
\<close>

theorem same_millisecond_counterexample:
  "getDeviceStatus ''D1'' (updateDeviceStatus 11 ''D1'' (Some FQC) completed emptyStore) =
     Some \<lparr>deviceId = ''D1'', fqcStatus = completed, packagingStatus = pending,
           lastUpdated = 11\<rparr>
   \<and> getDeviceStatus ''D1'' (updateDeviceStatus 11 ''D1'' (Some FQC) failed
        (updateDeviceStatus 11 ''D1'' (Some FQC) completed emptyStore)) =
       Some \<lparr>deviceId = ''D1'', fqcStatus = failed, packagingStatus = pending,
             lastUpdated = 11\<rparr>
   \<and> map (map lastUpdated) (deviceStatusWrites (writes (localStorage
        (handleFinalSubmit 10 11 11 (session FQC ''D1'' [cpFail] emptyStore))))) =
       [11] # [11] # []"
  by code_simp

text \<open>
  C6, amended. \<open>updateDeviceStatus\<close> for device \<open>d\<close> and stage \<open>stg\<close> at clock reading \<open>now\<close>:
  afterwards the record of \<open>d\<close> has the given value in the field of \<open>stg\<close> and
  \<open>lastUpdated = now\<close>, the clock reading of the call; its field of the other stage is
  the one it had, or \<open>pending\<close> if \<open>d\<close> had no record. The new record takes the place of
  the old one, or the end of the collection if \<open>d\<close> had none, and every other record is
  the same and in the same place: the records of the other devices are unchanged. The
  users and the reports are untouched.
\<close>

theorem updateDeviceStatus_frame:
  "(\<exists>r'. getDeviceStatus d (updateDeviceStatus now d (Some stg) v st) = Some r'
      \<and> deviceId r' = d \<and> stageField stg r' = v \<and> lastUpdated r' = now
      \<and> stageField (otherStage stg) r' =
          (case getDeviceStatus d st of
             None \<Rightarrow> pending
           | Some r \<Rightarrow> stageField (otherStage stg) r)
      \<and> getDeviceStatuses (updateDeviceStatus now d (Some stg) v st) =
          (case getDeviceStatus d st of
             None \<Rightarrow> getDeviceStatuses st @ [r']
           | Some r \<Rightarrow>
               takeWhile (\<lambda>x. deviceId x \<noteq> d) (getDeviceStatuses st) @ r' #
               tl (dropWhile (\<lambda>x. deviceId x \<noteq> d) (getDeviceStatuses st))))
   \<and> filter (\<lambda>r. deviceId r \<noteq> d) (getDeviceStatuses (updateDeviceStatus now d (Some stg) v st)) =
       filter (\<lambda>r. deviceId r \<noteq> d) (getDeviceStatuses st)
   \<and> length (getDeviceStatuses (updateDeviceStatus now d (Some stg) v st)) =
       (case getDeviceStatus d st of
          None \<Rightarrow> Suc (length (getDeviceStatuses st))
        | Some r \<Rightarrow> length (getDeviceStatuses st))
   \<and> USERS_KEY (updateDeviceStatus now d (Some stg) v st) = USERS_KEY st
   \<and> REPORTS_KEY (updateDeviceStatus now d (Some stg) v st) = REPORTS_KEY st"
proof -
  have "deviceId r = d" if "getDeviceStatus d st = Some r" for r
    using find_first_Some [of "\<lambda>s. deviceId s = d" "getDeviceStatuses st" r] that
    by (simp add: getDeviceStatus_def)
  then have "\<exists>r'. getDeviceStatus d (updateDeviceStatus now d (Some stg) v st) = Some r'
      \<and> deviceId r' = d \<and> stageField stg r' = v \<and> lastUpdated r' = now
      \<and> stageField (otherStage stg) r' =
          (case getDeviceStatus d st of
             None \<Rightarrow> pending
           | Some r \<Rightarrow> stageField (otherStage stg) r)
      \<and> getDeviceStatuses (updateDeviceStatus now d (Some stg) v st) =
          (case getDeviceStatus d st of
             None \<Rightarrow> getDeviceStatuses st @ [r']
           | Some r \<Rightarrow>
               takeWhile (\<lambda>x. deviceId x \<noteq> d) (getDeviceStatuses st) @ r' #
               tl (dropWhile (\<lambda>x. deviceId x \<noteq> d) (getDeviceStatuses st)))"
    by (simp add: getDeviceStatus_update statuses_update split: option.splits)
  then show ?thesis
    by (simp only: others_update length_update other_keys_update)
qed

theorem updateDeviceStatus_frame_witness:
  "getDeviceStatus ''D1'' (emptyStore\<lparr>DEVICE_STATUS_KEY := [statusD1, statusD2]\<rparr>) = Some statusD1
   \<and> getDeviceStatuses (updateDeviceStatus 9 ''D1'' (Some Packaging) failed
        (emptyStore\<lparr>DEVICE_STATUS_KEY := [statusD1, statusD2]\<rparr>)) =
       [\<lparr>deviceId = ''D1'', fqcStatus = completed, packagingStatus = failed, lastUpdated = 9\<rparr>,
        statusD2]
   \<and> getDeviceStatus ''D3'' (emptyStore\<lparr>DEVICE_STATUS_KEY := [statusD1, statusD2]\<rparr>) = None
   \<and> getDeviceStatuses (updateDeviceStatus 9 ''D3'' (Some Packaging) failed
        (emptyStore\<lparr>DEVICE_STATUS_KEY := [statusD1, statusD2]\<rparr>)) =
       [statusD1, statusD2,
        \<lparr>deviceId = ''D3'', fqcStatus = pending, packagingStatus = failed, lastUpdated = 9\<rparr>]"
proof -
  let ?st = "emptyStore\<lparr>DEVICE_STATUS_KEY := [statusD1, statusD2]\<rparr>"
  have a: "getDeviceStatus ''D1'' ?st = Some statusD1"
    "getDeviceStatus ''D3'' ?st = None"
    by code_simp+
  have b: "getDeviceStatuses (updateDeviceStatus 9 ''D1'' (Some Packaging) failed ?st) =
       [\<lparr>deviceId = ''D1'', fqcStatus = completed, packagingStatus = failed, lastUpdated = 9\<rparr>,
        statusD2]"
    by code_simp
  have c: "getDeviceStatuses (updateDeviceStatus 9 ''D3'' (Some Packaging) failed ?st) =
       [statusD1, statusD2,
        \<lparr>deviceId = ''D3'', fqcStatus = pending, packagingStatus = failed, lastUpdated = 9\<rparr>]"
    by code_simp
  from updateDeviceStatus_frame [of "''D1''" 9 Packaging failed ?st]
    updateDeviceStatus_frame [of "''D3''" 9 Packaging failed ?st] a b c
  show ?thesis by simp
qed

text \<open>
  C7, as stated, fails: the form's submit handler has no check for an existing user id.
  Creating a user \<open>admin\<close> in the seeded directory stores two users with that id.
\<close>

theorem create_duplicate_counterexample:
  "distinct (map userId (users (mountAdminPanel emptyStore)))
   \<and> map userId (users (handleSubmit (typedForm ''admin'' ''x'' (mountAdminPanel emptyStore)))) =
       [''admin'', ''admin'']
   \<and> map_option (map userId) (USERS_KEY (panelStorage
        (handleSubmit (typedForm ''admin'' ''x'' (mountAdminPanel emptyStore))))) =
       Some [''admin'', ''admin'']"
  by code_simp

text \<open>
  C7, amended. The panel's list of users mirrors the stored Users collection, from the
  mount on and after every operation. With pairwise distinct user ids before:
  \<open>toggleStatus\<close> and a submit that updates the user being edited keep the user ids as
  they are, \<open>deleteUser\<close> removes the given id (nothing for \<open>admin\<close> or when not
  confirmed), so the ids stay distinct; a submit that creates a user appends the new id
  with no check, and the ids stay distinct exactly when the form was incomplete
  (nothing is created) or the new id was not yet in the collection.
\<close>

theorem admin_directory_distinct:
  assumes "USERS_KEY (panelStorage p) = Some (users p)"
    and "distinct (map userId (users p))"
  shows "USERS_KEY (panelStorage (mountAdminPanel st)) = Some (users (mountAdminPanel st))
       \<and> USERS_KEY (panelStorage (toggleStatus uid p)) = Some (users (toggleStatus uid p))
       \<and> map userId (users (toggleStatus uid p)) = map userId (users p)
       \<and> distinct (map userId (users (toggleStatus uid p)))
       \<and> USERS_KEY (panelStorage (deleteUser uid confirmed p)) =
           Some (users (deleteUser uid confirmed p))
       \<and> map userId (users (deleteUser uid confirmed p)) =
           (if uid \<noteq> ''admin'' \<and> confirmed
            then filter (\<lambda>i. i \<noteq> uid) (map userId (users p))
            else map userId (users p))
       \<and> distinct (map userId (users (deleteUser uid confirmed p)))
       \<and> USERS_KEY (panelStorage (handleSubmit p)) = Some (users (handleSubmit p))
       \<and> ((\<exists>e. editingUserId p = Some e \<and> e \<noteq> []) \<longrightarrow>
            map userId (users (handleSubmit p)) = map userId (users p)
          \<and> distinct (map userId (users (handleSubmit p))))
       \<and> (\<not> (\<exists>e. editingUserId p = Some e \<and> e \<noteq> []) \<longrightarrow>
            map userId (users (handleSubmit p)) =
              (if newUserId p = [] \<or> newPassword p = [] then map userId (users p)
               else map userId (users p) @ [newUserId p])
          \<and> (distinct (map userId (users (handleSubmit p))) \<longleftrightarrow>
               newUserId p = [] \<or> newPassword p = [] \<or> newUserId p \<notin> userId ` set (users p)))"
proof -
  have m: "map userId (map (\<lambda>u. if q u then g u else u) us) = map userId us"
    if "\<And>u. userId (g u) = userId u" for q g and us :: "User list"
    using that by (induction us) auto
  have f: "map userId (filter (\<lambda>u. userId u \<noteq> uid) us) = filter (\<lambda>i. i \<noteq> uid) (map userId us)"
    for us :: "User list"
    by (induction us) auto
  have mt: "USERS_KEY (panelStorage (mountAdminPanel st)) = Some (users (mountAdminPanel st))"
    by (simp add: mountAdminPanel_def getStoredUsers_def saveUsers_def split: option.splits)
  have ts: "USERS_KEY (panelStorage (toggleStatus uid p)) = Some (users (toggleStatus uid p))"
    using assms(1) by (simp add: toggleStatus_def Let_def saveUsers_def)
  have tm: "map userId (users (toggleStatus uid p)) = map userId (users p)"
    by (simp add: toggleStatus_def Let_def m del: map_map)
  have ds: "USERS_KEY (panelStorage (deleteUser uid confirmed p)) =
           Some (users (deleteUser uid confirmed p))"
    using assms(1) by (simp add: deleteUser_def Let_def saveUsers_def)
  have dm: "map userId (users (deleteUser uid confirmed p)) =
           (if uid \<noteq> ''admin'' \<and> confirmed
            then filter (\<lambda>i. i \<noteq> uid) (map userId (users p))
            else map userId (users p))"
    by (simp add: deleteUser_def Let_def f)
  have hs: "USERS_KEY (panelStorage (handleSubmit p)) = Some (users (handleSubmit p))"
    using assms(1) by (simp add: handleSubmit_def Let_def saveUsers_def)
  have em: "map userId (users (handleSubmit p)) = map userId (users p)"
    if "\<exists>e. editingUserId p = Some e \<and> e \<noteq> []"
    using that by (auto simp: handleSubmit_def Let_def m simp del: map_map)
  have cm: "map userId (users (handleSubmit p)) =
              (if newUserId p = [] \<or> newPassword p = [] then map userId (users p)
               else map userId (users p) @ [newUserId p])"
    if "\<not> (\<exists>e. editingUserId p = Some e \<and> e \<noteq> [])"
    using that by (auto simp: handleSubmit_def Let_def split: option.splits)
  have td: "distinct (map userId (users (toggleStatus uid p)))"
    using assms(2) by (simp only: tm)
  have dd: "distinct (map userId (users (deleteUser uid confirmed p)))"
    using assms(2) by (simp add: dm)
  have ed: "distinct (map userId (users (handleSubmit p)))"
    if "\<exists>e. editingUserId p = Some e \<and> e \<noteq> []"
    using assms(2) em [OF that] by simp
  have cd: "distinct (map userId (users (handleSubmit p))) \<longleftrightarrow>
             newUserId p = [] \<or> newPassword p = [] \<or> newUserId p \<notin> userId ` set (users p)"
    if "\<not> (\<exists>e. editingUserId p = Some e \<and> e \<noteq> [])"
    using assms(2) cm [OF that] by auto
  from mt ts tm td ds dm dd hs em ed cm cd show ?thesis by blast
qed

theorem admin_directory_distinct_witness:
  "USERS_KEY (panelStorage (mountAdminPanel store0)) = Some (users (mountAdminPanel store0))
   \<and> distinct (map userId (users (mountAdminPanel store0)))
   \<and> map userId (users (handleSubmit (typedForm ''op3'' ''x'' (mountAdminPanel store0)))) =
       [''admin'', ''op2'', ''op3'']
   \<and> distinct (map userId (users (handleSubmit (typedForm ''op3'' ''x'' (mountAdminPanel store0)))))
   \<and> distinct (map userId (users (handleSubmit
        (handleEdit INITIAL_ADMIN_USER (mountAdminPanel store0)))))
   \<and> map_option (map userId) (USERS_KEY (panelStorage
        (deleteUser ''op2'' True (mountAdminPanel store0)))) = Some [''admin'']
   \<and> map_option (map userId) (USERS_KEY (panelStorage
        (toggleStatus ''op2'' (mountAdminPanel store0)))) = Some [''admin'', ''op2'']"
proof -
  let ?p = "mountAdminPanel store0"
  have s: "USERS_KEY (panelStorage ?p) = Some (users ?p)" by code_simp
  have s3: "USERS_KEY (panelStorage (typedForm ''op3'' ''x'' ?p)) =
      Some (users (typedForm ''op3'' ''x'' ?p))"
    by code_simp
  have se: "USERS_KEY (panelStorage (handleEdit INITIAL_ADMIN_USER ?p)) =
      Some (users (handleEdit INITIAL_ADMIN_USER ?p))"
    by code_simp
  have a: "distinct (map userId (users ?p))" by code_simp
  have a3: "distinct (map userId (users (typedForm ''op3'' ''x'' ?p)))" by code_simp
  have ae: "distinct (map userId (users (handleEdit INITIAL_ADMIN_USER ?p)))" by code_simp
  have u: "map userId (users ?p) = [''admin'', ''op2'']" by code_simp
  have h3: "\<not> (\<exists>e. editingUserId (typedForm ''op3'' ''x'' ?p) = Some e \<and> e \<noteq> [])"
    "newUserId (typedForm ''op3'' ''x'' ?p) \<notin> userId ` set (users (typedForm ''op3'' ''x'' ?p))"
    by (simp_all add: typedForm_def mountAdminPanel_def getStoredUsers_def store0_def
        emptyStore_def INITIAL_ADMIN_USER_def)
  have he: "\<exists>e. editingUserId (handleEdit INITIAL_ADMIN_USER ?p) = Some e \<and> e \<noteq> []"
    by (simp add: handleEdit_def INITIAL_ADMIN_USER_def)
  have m: "map userId (users (handleSubmit (typedForm ''op3'' ''x'' ?p))) =
       [''admin'', ''op2'', ''op3'']"
    by code_simp
  from admin_directory_distinct [OF s3 a3, of store0 "''op2''" True] h3
  have c1: "distinct (map userId (users (handleSubmit (typedForm ''op3'' ''x'' ?p))))" by blast
  from admin_directory_distinct [OF se ae, of store0 "''op2''" True] he
  have c2: "distinct (map userId (users (handleSubmit (handleEdit INITIAL_ADMIN_USER ?p))))"
    by blast
  from admin_directory_distinct [OF s a, of store0 "''op2''" True]
  have "USERS_KEY (panelStorage (deleteUser ''op2'' True ?p)) =
          Some (users (deleteUser ''op2'' True ?p))"
    "map userId (users (deleteUser ''op2'' True ?p)) =
       (if ''op2'' \<noteq> ''admin'' \<and> True then filter (\<lambda>i. i \<noteq> ''op2'') (map userId (users ?p))
        else map userId (users ?p))"
    "USERS_KEY (panelStorage (toggleStatus ''op2'' ?p)) = Some (users (toggleStatus ''op2'' ?p))"
    "map userId (users (toggleStatus ''op2'' ?p)) = map userId (users ?p)"
    by blast+
  then have c3: "map_option (map userId) (USERS_KEY (panelStorage (deleteUser ''op2'' True ?p))) =
        Some [''admin'']"
    and c4: "map_option (map userId) (USERS_KEY (panelStorage (toggleStatus ''op2'' ?p))) =
        Some [''admin'', ''op2'']"
    by (simp_all add: u)
  from s a m c1 c2 c3 c4 show ?thesis by blast
qed

text \<open>
  C8, as stated, fails: the table is not sorted. After device \<open>D1\<close> was updated at time 1
  and device \<open>D2\<close> at time 2, the table lists \<open>D1\<close> before \<open>D2\<close>, the older one first.
\<close>

theorem dashboard_order_counterexample:
  "map lastUpdated (renderDashboard_deviceRows
      (updateDeviceStatus 2 ''D2'' (Some FQC) completed
         (updateDeviceStatus 1 ''D1'' (Some FQC) completed emptyStore))) = [1, 2]
   \<and> map deviceId (renderDashboard_deviceRows
      (updateDeviceStatus 2 ''D2'' (Some FQC) completed
         (updateDeviceStatus 1 ''D1'' (Some FQC) completed emptyStore))) = [''D1'', ''D2'']"
  by code_simp

text \<open>
  C8, amended. The device table shows the first ten records of the stored collection
  in the stored order: row \<open>i\<close> is record \<open>i\<close> of the collection, and there are ten rows,
  or as many as the collection has if it has fewer. The stored order is the order in
  which the devices got their record: the record of a new device is stored after all
  the others, and an update of a device that has a record leaves every device in its
  place. The table is not sorted by \<open>lastUpdated\<close>.
\<close>

theorem dashboard_rows_prefix:
  "renderDashboard_deviceRows st = take 10 (getDeviceStatuses st)
   \<and> length (renderDashboard_deviceRows st) = min 10 (length (getDeviceStatuses st))
   \<and> (\<forall>i < length (renderDashboard_deviceRows st).
         renderDashboard_deviceRows st ! i = getDeviceStatuses st ! i)
   \<and> (getDeviceStatus d st = None \<longrightarrow>
        (\<exists>r. getDeviceStatuses (updateDeviceStatus now d stg v st) = getDeviceStatuses st @ [r]
             \<and> deviceId r = d))
   \<and> (getDeviceStatus d st \<noteq> None \<longrightarrow>
        map deviceId (getDeviceStatuses (updateDeviceStatus now d stg v st)) =
        map deviceId (getDeviceStatuses st))"
proof -
  have n: "\<exists>r. getDeviceStatuses (updateDeviceStatus now d stg v st) = getDeviceStatuses st @ [r]
             \<and> deviceId r = d"
    if "getDeviceStatus d st = None"
    using that by (simp add: statuses_update)
  have e: "map deviceId (getDeviceStatuses (updateDeviceStatus now d stg v st)) =
        map deviceId (getDeviceStatuses st)"
    if "getDeviceStatus d st \<noteq> None"
    using that by (auto simp: deviceIds_update)
  from n e show ?thesis
    by (simp add: renderDashboard_deviceRows_def)
qed

theorem dashboard_rows_prefix_witness:
  "length (getDeviceStatuses (emptyStore\<lparr>DEVICE_STATUS_KEY := elevenStatuses\<rparr>)) = 11
   \<and> map deviceId (renderDashboard_deviceRows (emptyStore\<lparr>DEVICE_STATUS_KEY := elevenStatuses\<rparr>)) =
       [''D01'', ''D02'', ''D03'', ''D04'', ''D05'', ''D06'', ''D07'', ''D08'', ''D09'', ''D10'']
   \<and> map lastUpdated (renderDashboard_deviceRows
        (emptyStore\<lparr>DEVICE_STATUS_KEY := elevenStatuses\<rparr>)) = [1, 2, 3, 4, 5, 6, 7, 8, 9, 10]
   \<and> (3::nat) < length (renderDashboard_deviceRows (emptyStore\<lparr>DEVICE_STATUS_KEY := elevenStatuses\<rparr>))
   \<and> renderDashboard_deviceRows (emptyStore\<lparr>DEVICE_STATUS_KEY := elevenStatuses\<rparr>) ! 3 =
       newStatus 4 ''D04''
   \<and> getDeviceStatus ''D12'' (emptyStore\<lparr>DEVICE_STATUS_KEY := elevenStatuses\<rparr>) = None
   \<and> map deviceId (getDeviceStatuses (updateDeviceStatus 12 ''D12'' (Some FQC) completed
        (emptyStore\<lparr>DEVICE_STATUS_KEY := elevenStatuses\<rparr>))) =
       map deviceId elevenStatuses @ [''D12'']
   \<and> getDeviceStatus ''D01'' (emptyStore\<lparr>DEVICE_STATUS_KEY := elevenStatuses\<rparr>) \<noteq> None
   \<and> map deviceId (renderDashboard_deviceRows (updateDeviceStatus 12 ''D01'' (Some FQC) completed
        (emptyStore\<lparr>DEVICE_STATUS_KEY := elevenStatuses\<rparr>))) =
       [''D01'', ''D02'', ''D03'', ''D04'', ''D05'', ''D06'', ''D07'', ''D08'', ''D09'', ''D10'']"
proof -
  let ?st = "emptyStore\<lparr>DEVICE_STATUS_KEY := elevenStatuses\<rparr>"
  let ?ids = "[''D01'', ''D02'', ''D03'', ''D04'', ''D05'', ''D06'', ''D07'', ''D08'', ''D09'', ''D10'']"
  have g: "getDeviceStatuses ?st = elevenStatuses"
    by (simp add: getDeviceStatuses_def emptyStore_def)
  have l: "length elevenStatuses = 11" by (simp add: elevenStatuses_def)
  have t: "map deviceId (take 10 elevenStatuses) = ?ids"
    "map lastUpdated (take 10 elevenStatuses) = [1, 2, 3, 4, 5, 6, 7, 8, 9, 10]"
    "elevenStatuses ! 3 = newStatus 4 ''D04''"
    by code_simp+
  have a: "getDeviceStatus ''D12'' ?st = None" "getDeviceStatus ''D01'' ?st \<noteq> None"
    by code_simp+
  note r = dashboard_rows_prefix [of ?st "''D12''" 12 "Some FQC" completed]
  from r have rows: "renderDashboard_deviceRows ?st = take 10 elevenStatuses"
    by (simp add: g)
  from r l have len: "length (renderDashboard_deviceRows ?st) = 10" by (simp add: g)
  from r len have nth: "renderDashboard_deviceRows ?st ! 3 = elevenStatuses ! 3"
    by (simp add: g)
  from r a(1) obtain x where
    x: "getDeviceStatuses (updateDeviceStatus 12 ''D12'' (Some FQC) completed ?st) =
          getDeviceStatuses ?st @ [x]" "deviceId x = ''D12''"
    by blast
  have new: "map deviceId (getDeviceStatuses (updateDeviceStatus 12 ''D12'' (Some FQC) completed ?st)) =
       map deviceId elevenStatuses @ [''D12'']"
    by (simp add: x g)
  note r1 = dashboard_rows_prefix [of ?st "''D01''" 12 "Some FQC" completed]
  note r2 = dashboard_rows_prefix [of "updateDeviceStatus 12 ''D01'' (Some FQC) completed ?st"
      "''D01''" 12 "Some FQC" completed]
  from r1 a(2) have "map deviceId (getDeviceStatuses
      (updateDeviceStatus 12 ''D01'' (Some FQC) completed ?st)) = map deviceId elevenStatuses"
    by (simp add: g)
  moreover from r2 have "map deviceId (renderDashboard_deviceRows
      (updateDeviceStatus 12 ''D01'' (Some FQC) completed ?st)) =
      take 10 (map deviceId (getDeviceStatuses
        (updateDeviceStatus 12 ''D01'' (Some FQC) completed ?st)))"
    by (simp add: take_map)
  ultimately have upd: "map deviceId (renderDashboard_deviceRows
      (updateDeviceStatus 12 ''D01'' (Some FQC) completed ?st)) = ?ids"
    using t(1) by (simp add: take_map)
  from g l rows len nth t a new upd show ?thesis by simp
qed

text \<open>
  C9, as stated, fails in its second part: \<open>escape\<close> is not idempotent, not even on a
  value without quotes. Escaping \<open>a\<close> gives \<open>"a"\<close>, and escaping that gives \<open>"""a"""\<close>.
\<close>

theorem escape_twice_counterexample:
  "dquote \<notin> set ''a''
   \<and> escape (Some ''a'') = [dquote] @ ''a'' @ [dquote]
   \<and> escape (Some (escape (Some ''a''))) =
       [dquote, dquote, dquote] @ ''a'' @ [dquote, dquote, dquote]
   \<and> escape (Some (escape (Some ''a''))) \<noteq> escape (Some ''a'')"
  by code_simp

text \<open>
  C9, amended. \<open>escape\<close> puts the value between two double quotes, with every double
  quote of the value doubled and every other character kept; \<open>He said "hi"\<close> becomes
  \<open>"He said ""hi"""\<close>. The doubling leaves a value without quotes as it is, so such a
  value is emitted between two quotes, unchanged. A second application of \<open>escape\<close>
  never gives the same field again.
\<close>

theorem escape_doubles_quotes:
  "escape (Some v) =
     [dquote] @ concat (map (\<lambda>c. if c = dquote then [dquote, dquote] else [c]) v) @ [dquote]
   \<and> escape (Some (''He said '' @ [dquote] @ ''hi'' @ [dquote])) =
       [dquote] @ ''He said '' @ [dquote, dquote] @ ''hi'' @ [dquote, dquote] @ [dquote]
   \<and> (dquote \<notin> set v \<longrightarrow> replaceQuotes v = v \<and> escape (Some v) = [dquote] @ v @ [dquote])
   \<and> escape (Some (escape (Some v))) \<noteq> escape (Some v)"
proof -
  have a: "escape (Some v) =
     [dquote] @ concat (map (\<lambda>c. if c = dquote then [dquote, dquote] else [c]) v) @ [dquote]"
    by (simp add: escape_def replaceQuotes_concat)
  have b: "escape (Some (''He said '' @ [dquote] @ ''hi'' @ [dquote])) =
       [dquote] @ ''He said '' @ [dquote, dquote] @ ''hi'' @ [dquote, dquote] @ [dquote]"
    by code_simp
  have c: "replaceQuotes v = v \<and> escape (Some v) = [dquote] @ v @ [dquote]"
    if "dquote \<notin> set v"
    using that by (simp add: escape_def replaceQuotes_id)
  have "length (escape (Some w)) \<ge> length w + 2" for w
    using length_replaceQuotes [of w] by (simp add: escape_def)
  from this [of "escape (Some v)"]
  have d: "escape (Some (escape (Some v))) \<noteq> escape (Some v)" by auto
  from a b c d show ?thesis by blast
qed

theorem escape_doubles_quotes_witness:
  "dquote \<notin> set ''FLEX-1'' \<and> escape (Some ''FLEX-1'') = [dquote] @ ''FLEX-1'' @ [dquote]"
proof -
  have "dquote \<notin> set ''FLEX-1''" by code_simp
  with escape_doubles_quotes [of "''FLEX-1''"] show ?thesis by blast
qed




end
